theory Spec2Isabelle
  imports Main "HOL-Library.Word"
begin

unbundle bit_operations_syntax

section \<open>Machine types and the byte-addressed heap\<close>

text \<open>
  The allocator of \<^verbatim>\<open>malloc_lab.c\<close> runs on a 64-bit little-endian machine:
  \<^verbatim>\<open>size_t\<close> is a 64-bit word, \<^verbatim>\<open>unsigned\<close> (the header and footer words) a 32-bit word,
  and both wrap around as in C. Memory is an array of bytes. An address (\<^verbatim>\<open>char *\<close>) is
  an integer; pointer arithmetic is exact (C leaves its overflow undefined), and the casts
  \<^verbatim>\<open>(size_t) bp\<close> and \<^verbatim>\<open>(char *) GET(p)\<close> of the source are the conversions
  \<open>size_of_ptr\<close> and \<open>ptr_of_size\<close> between addresses and 64-bit words.
\<close>

type_synonym ptr = int
type_synonym size_t = "64 word"
type_synonym unsigned = "32 word"
type_synonym byte = "8 word"
type_synonym memory = "ptr \<Rightarrow> byte"

text \<open>
  The global state: the bytes of memory, the two globals \<^verbatim>\<open>heap_ptr\<close> and \<^verbatim>\<open>heap_start\<close>
  of the allocator, and the break and the limit of the heap primitive (\<^verbatim>\<open>memlib\<close>).
\<close>

record heap =
  mem :: memory
  mem_brk :: ptr
  mem_max_addr :: ptr
  heap_ptr :: ptr
  heap_start :: ptr

definition size_of_ptr :: "ptr \<Rightarrow> size_t" where
  "size_of_ptr p = word_of_int p"

definition ptr_of_size :: "size_t \<Rightarrow> ptr" where
  "ptr_of_size v = uint v"

subsection \<open>Global constants\<close>

definition WSIZE :: int where "WSIZE = 4"
definition DSIZE :: int where "DSIZE = 8"
definition CHUNKSIZE :: size_t where "CHUNKSIZE = 168"
definition OVERHEAD :: size_t where "OVERHEAD = 8"
definition MIN_BLOCK_SIZE :: size_t where "MIN_BLOCK_SIZE = 24"
definition ALLOC :: unsigned where "ALLOC = 1"
definition PREV_ALLOC :: unsigned where "PREV_ALLOC = 2"
definition NO_OF_LISTS :: int where "NO_OF_LISTS = 12"
definition NULL :: ptr where "NULL = 0"

definition LIST0_SIZE :: size_t where "LIST0_SIZE = 128"
definition LIST1_SIZE :: size_t where "LIST1_SIZE = 256"
definition LIST2_SIZE :: size_t where "LIST2_SIZE = 512"
definition LIST3_SIZE :: size_t where "LIST3_SIZE = 1024"
definition LIST4_SIZE :: size_t where "LIST4_SIZE = 2048"
definition LIST5_SIZE :: size_t where "LIST5_SIZE = 4096"
definition LIST6_SIZE :: size_t where "LIST6_SIZE = 8192"
definition LIST7_SIZE :: size_t where "LIST7_SIZE = 16834"
definition LIST8_SIZE :: size_t where "LIST8_SIZE = 32768"
definition LIST9_SIZE :: size_t where "LIST9_SIZE = 65536"
definition LIST10_SIZE :: size_t where "LIST10_SIZE = 131072"

definition LIST_0 :: int where "LIST_0 = 0"
definition LIST_1 :: int where "LIST_1 = 8"
definition LIST_2 :: int where "LIST_2 = 16"
definition LIST_3 :: int where "LIST_3 = 24"
definition LIST_4 :: int where "LIST_4 = 32"
definition LIST_5 :: int where "LIST_5 = 40"
definition LIST_6 :: int where "LIST_6 = 48"
definition LIST_7 :: int where "LIST_7 = 56"
definition LIST_8 :: int where "LIST_8 = 64"
definition LIST_9 :: int where "LIST_9 = 72"
definition LIST_10 :: int where "LIST_10 = 80"
definition LIST_11 :: int where "LIST_11 = 88"

lemmas const_defs =
  WSIZE_def DSIZE_def CHUNKSIZE_def OVERHEAD_def MIN_BLOCK_SIZE_def ALLOC_def PREV_ALLOC_def
  NO_OF_LISTS_def NULL_def
  LIST0_SIZE_def LIST1_SIZE_def LIST2_SIZE_def LIST3_SIZE_def LIST4_SIZE_def LIST5_SIZE_def
  LIST6_SIZE_def LIST7_SIZE_def LIST8_SIZE_def LIST9_SIZE_def LIST10_SIZE_def
  LIST_0_def LIST_1_def LIST_2_def LIST_3_def LIST_4_def LIST_5_def LIST_6_def LIST_7_def
  LIST_8_def LIST_9_def LIST_10_def LIST_11_def

subsection \<open>Reading and writing memory\<close>

text \<open>
  A byte store \<^verbatim>\<open>*p = v\<close> is \<open>m(p := v)\<close>.
  \<^verbatim>\<open>GET_4\<close>/\<^verbatim>\<open>PUT_4\<close> access an \<^verbatim>\<open>unsigned\<close> (4 bytes), \<^verbatim>\<open>GET\<close>/\<^verbatim>\<open>PUT\<close> a \<^verbatim>\<open>size_t\<close>
  (8 bytes), least significant byte first.
\<close>

definition load_4 :: "memory \<Rightarrow> ptr \<Rightarrow> unsigned" where
  "load_4 m p =
     ucast (m p) OR push_bit 8 (ucast (m (p + 1))) OR push_bit 16 (ucast (m (p + 2)))
       OR push_bit 24 (ucast (m (p + 3)))"

definition store_4 :: "memory \<Rightarrow> ptr \<Rightarrow> unsigned \<Rightarrow> memory" where
  "store_4 m p v =
     m(p := ucast v, p + 1 := ucast (drop_bit 8 v), p + 2 := ucast (drop_bit 16 v),
       p + 3 := ucast (drop_bit 24 v))"

definition load_8 :: "memory \<Rightarrow> ptr \<Rightarrow> size_t" where
  "load_8 m p = ucast (load_4 m p) OR push_bit 32 (ucast (load_4 m (p + 4)))"

definition store_8 :: "memory \<Rightarrow> ptr \<Rightarrow> size_t \<Rightarrow> memory" where
  "store_8 m p v = store_4 (store_4 m p (ucast v)) (p + 4) (ucast (drop_bit 32 v))"

definition GET :: "heap \<Rightarrow> ptr \<Rightarrow> size_t" where
  "GET s p = load_8 (mem s) p"

definition PUT :: "ptr \<Rightarrow> size_t \<Rightarrow> heap \<Rightarrow> heap" where
  "PUT p val s = s\<lparr>mem := store_8 (mem s) p val\<rparr>"

definition GET_4 :: "heap \<Rightarrow> ptr \<Rightarrow> unsigned" where
  "GET_4 s p = load_4 (mem s) p"

definition PUT_4 :: "ptr \<Rightarrow> unsigned \<Rightarrow> heap \<Rightarrow> heap" where
  "PUT_4 p val s = s\<lparr>mem := store_4 (mem s) p val\<rparr>"

text \<open>\<^verbatim>\<open>PACK(size, alloc)\<close> is a bitwise or.\<close>

definition PACK :: "'a::len word \<Rightarrow> 'a word \<Rightarrow> 'a word" where
  "PACK sz alloc = sz OR alloc"

definition GET_SIZE :: "heap \<Rightarrow> ptr \<Rightarrow> unsigned" where
  "GET_SIZE s p = GET_4 s p AND NOT 7"

definition GET_PREV_ALLOC :: "heap \<Rightarrow> ptr \<Rightarrow> unsigned" where
  "GET_PREV_ALLOC s p = GET_4 s p AND 2"

definition GET_ALLOC :: "heap \<Rightarrow> ptr \<Rightarrow> unsigned" where
  "GET_ALLOC s p = GET_4 s p AND 1"

definition HDRP :: "ptr \<Rightarrow> ptr" where
  "HDRP bp = bp - WSIZE"

definition FTRP :: "heap \<Rightarrow> ptr \<Rightarrow> ptr" where
  "FTRP s bp = bp + uint (GET_SIZE s (HDRP bp)) - DSIZE"

definition NEXT_BLKP :: "heap \<Rightarrow> ptr \<Rightarrow> ptr" where
  "NEXT_BLKP s bp = bp + uint (GET_SIZE s (bp - WSIZE))"

definition PREV_BLKP :: "heap \<Rightarrow> ptr \<Rightarrow> ptr" where
  "PREV_BLKP s bp = bp - uint (GET_SIZE s (bp - DSIZE))"

definition NEXT_FREE :: "ptr \<Rightarrow> ptr" where
  "NEXT_FREE bp = bp"

definition PREV_FREE :: "ptr \<Rightarrow> ptr" where
  "PREV_FREE bp = bp + DSIZE"

section \<open>Size classes\<close>

definition get_index :: "size_t \<Rightarrow> size_t" where
  "get_index asize =
     (if asize \<le> LIST0_SIZE then 0
      else if asize \<le> LIST1_SIZE then 1
      else if asize \<le> LIST2_SIZE then 2
      else if asize \<le> LIST3_SIZE then 3
      else if asize \<le> LIST4_SIZE then 4
      else if asize \<le> LIST5_SIZE then 5
      else if asize \<le> LIST6_SIZE then 6
      else if asize \<le> LIST7_SIZE then 7
      else if asize \<le> LIST8_SIZE then 8
      else if asize \<le> LIST9_SIZE then 9
      else if asize \<le> LIST10_SIZE then 10
      else 11)"

definition find_list :: "size_t \<Rightarrow> int" where
  "find_list ind =
     (if ind = 0 then LIST_0
      else if ind = 1 then LIST_1
      else if ind = 2 then LIST_2
      else if ind = 3 then LIST_3
      else if ind = 4 then LIST_4
      else if ind = 5 then LIST_5
      else if ind = 6 then LIST_6
      else if ind = 7 then LIST_7
      else if ind = 8 then LIST_8
      else if ind = 9 then LIST_9
      else if ind = 10 then LIST_10
      else LIST_11)"

definition find_list_by_size :: "size_t \<Rightarrow> int" where
  "find_list_by_size ind =
     (if ind \<le> LIST0_SIZE then LIST_0
      else if ind \<le> LIST1_SIZE then LIST_1
      else if ind \<le> LIST2_SIZE then LIST_2
      else if ind \<le> LIST3_SIZE then LIST_3
      else if ind \<le> LIST4_SIZE then LIST_4
      else if ind \<le> LIST5_SIZE then LIST_5
      else if ind \<le> LIST6_SIZE then LIST_6
      else if ind \<le> LIST7_SIZE then LIST_7
      else if ind \<le> LIST8_SIZE then LIST_8
      else if ind \<le> LIST9_SIZE then LIST_9
      else if ind \<le> LIST10_SIZE then LIST_10
      else LIST_11)"

section \<open>The free lists\<close>

definition add_free_blk :: "ptr \<Rightarrow> size_t \<Rightarrow> heap \<Rightarrow> heap" where
  "add_free_blk bp sz s =
     (let list_num = find_list_by_size sz;
          fit_seg = heap_ptr s + list_num;
          fit_blk = ptr_of_size (GET s (heap_ptr s + list_num))
      in if fit_blk \<noteq> NULL
         then PUT (NEXT_FREE bp) (size_of_ptr fit_blk)
               (PUT (PREV_FREE fit_blk) (size_of_ptr bp)
                 (PUT (PREV_FREE bp) (size_of_ptr NULL)
                   (PUT fit_seg (size_of_ptr bp) s)))
         else PUT (NEXT_FREE bp) (size_of_ptr NULL)
               (PUT (PREV_FREE bp) (size_of_ptr NULL)
                 (PUT fit_seg (size_of_ptr bp) s)))"

definition rem_free_blk :: "ptr \<Rightarrow> size_t \<Rightarrow> heap \<Rightarrow> heap" where
  "rem_free_blk bp sz s =
     (let next_free_blk = ptr_of_size (GET s (NEXT_FREE bp));
          prev_free_blk = ptr_of_size (GET s (PREV_FREE bp));
          list_num = find_list_by_size sz
      in if prev_free_blk = NULL \<and> next_free_blk = NULL
         then PUT (heap_ptr s + list_num) (size_of_ptr NULL) s
         else if prev_free_blk = NULL \<and> next_free_blk \<noteq> NULL
         then PUT (PREV_FREE next_free_blk) (size_of_ptr NULL)
               (PUT (heap_ptr s + list_num) (size_of_ptr next_free_blk) s)
         else if prev_free_blk \<noteq> NULL \<and> next_free_blk = NULL
         then PUT (NEXT_FREE prev_free_blk) (size_of_ptr NULL) s
         else PUT (PREV_FREE next_free_blk) (size_of_ptr prev_free_blk)
               (PUT (NEXT_FREE prev_free_blk) (size_of_ptr next_free_blk) s))"

section \<open>The heap primitive\<close>

text \<open>
  Modelled from the spec: the heap primitive \<^verbatim>\<open>mem_sbrk\<close> of \<^verbatim>\<open>memlib\<close>, which is not part
  of the sources. \<^verbatim>\<open>extend(n)\<close> advances the break by \<^verbatim>\<open>n\<close> bytes and returns the old break;
  on exhaustion it reports an error, which is the pointer \<^verbatim>\<open>(void *) -1\<close> that
  \<^verbatim>\<open>extend_heap\<close> tests for with \<^verbatim>\<open>(long) bp < 0\<close>.
\<close>

definition SBRK_FAILED :: ptr where
  "SBRK_FAILED = 2 ^ 64 - 1"

definition mem_sbrk :: "size_t \<Rightarrow> heap \<Rightarrow> ptr \<times> heap" where
  "mem_sbrk incr s =
     (if mem_brk s + uint incr > mem_max_addr s then (SBRK_FAILED, s)
      else (mem_brk s, s\<lparr>mem_brk := mem_brk s + uint incr\<rparr>))"

text \<open>The value of the cast \<^verbatim>\<open>(long) bp\<close> of a pointer.\<close>

definition long_of_ptr :: "ptr \<Rightarrow> int" where
  "long_of_ptr p = sint (word_of_int p :: 64 word)"

section \<open>Coalescing, extension and placement\<close>

definition coalesce :: "ptr \<Rightarrow> heap \<Rightarrow> ptr \<times> heap" where
  "coalesce bp s =
     (let sz = (ucast (GET_SIZE s (HDRP bp)) :: size_t);
          prev_blk = PREV_BLKP s bp;
          prev_hdr = HDRP prev_blk;
          next_blk = NEXT_BLKP s bp;
          next_size = (ucast (GET_SIZE s (HDRP next_blk)) :: size_t);
          next_alloc = (ucast (GET_ALLOC s (HDRP (NEXT_BLKP s bp))) :: size_t);
          prev_alloc = (ucast (GET_PREV_ALLOC s (HDRP bp)) :: size_t);
          check = prev_alloc OR next_alloc
      in if check = 3 then (bp, s)
         else if check = 2 then
           (let s1 = rem_free_blk bp sz s;
                s2 = rem_free_blk next_blk next_size s1;
                sz' = sz + next_size;
                s3 = PUT_4 (HDRP bp) (ucast (PACK sz' prev_alloc)) s2;
                s4 = PUT_4 (FTRP s3 bp) (ucast (PACK sz' prev_alloc)) s3
            in (bp, add_free_blk bp sz' s4))
         else if check = 1 then
           (let prev_size = (ucast (GET_SIZE s prev_hdr) :: size_t);
                s1 = rem_free_blk bp sz s;
                s2 = rem_free_blk prev_blk prev_size s1;
                sz' = sz + prev_size;
                s3 = PUT_4 prev_hdr (ucast (PACK sz' (ucast (GET_PREV_ALLOC s2 prev_hdr)))) s2;
                s4 = PUT_4 (FTRP s3 prev_blk) (GET_4 s3 prev_hdr) s3
            in (prev_blk, add_free_blk prev_blk sz' s4))
         else if check = 0 then
           (let prev_size = (ucast (GET_SIZE s prev_hdr) :: size_t);
                s1 = rem_free_blk bp sz s;
                s2 = rem_free_blk prev_blk prev_size s1;
                s3 = rem_free_blk next_blk next_size s2;
                sz' = sz + (prev_size + next_size);
                s4 = PUT_4 prev_hdr (ucast (PACK sz' (ucast (GET_PREV_ALLOC s3 prev_hdr)))) s3;
                s5 = PUT_4 (FTRP s4 prev_blk) (GET_4 s4 prev_hdr) s4
            in (prev_blk, add_free_blk prev_blk sz' s5))
         else (bp, s))"

definition extend_heap :: "size_t \<Rightarrow> heap \<Rightarrow> ptr \<times> heap" where
  "extend_heap words s =
     (let (bp, s1) = mem_sbrk words s
      in if long_of_ptr bp < 0 then (NULL, s1)
         else
           (let s2 = PUT_4 (HDRP bp) (ucast (PACK words (ucast (GET_PREV_ALLOC s1 (HDRP bp))))) s1;
                s3 = PUT_4 (FTRP s2 bp) (GET_4 s2 (HDRP bp)) s2;
                s4 = PUT_4 (HDRP (NEXT_BLKP s3 bp)) (PACK 0 1) s3;
                s5 = add_free_blk bp words s4
            in coalesce bp s5))"

definition place :: "ptr \<Rightarrow> size_t \<Rightarrow> heap \<Rightarrow> heap" where
  "place bp asize s =
     (let blk_size = (ucast (GET_SIZE s (HDRP bp)) :: size_t);
          extra = blk_size - asize;
          next_blk = NEXT_BLKP s bp;
          s1 = rem_free_blk bp blk_size s
      in if extra \<ge> MIN_BLOCK_SIZE
         then
           (let s2 = PUT_4 (HDRP bp)
                       (ucast (PACK asize (ucast (GET_PREV_ALLOC s1 (HDRP bp) OR ALLOC)))) s1;
                next_blk = NEXT_BLKP s2 bp;
                s3 = PUT_4 (HDRP next_blk) (ucast (extra OR ucast PREV_ALLOC)) s2;
                s4 = PUT_4 (FTRP s3 next_blk) (ucast (extra OR ucast PREV_ALLOC)) s3
            in add_free_blk next_blk extra s4)
         else
           (let s2 = PUT_4 (HDRP bp)
                       (ucast (PACK blk_size (ucast (GET_PREV_ALLOC s1 (HDRP bp) OR ALLOC)))) s1;
                s3 = PUT_4 (HDRP next_blk) (GET_4 s2 (HDRP next_blk) OR PREV_ALLOC) s2
            in if GET_ALLOC s3 (HDRP next_blk) = 0
               then PUT_4 (FTRP s3 next_blk) (GET_4 s3 (HDRP next_blk)) s3
               else s3))"

section \<open>Finding a fit\<close>

text \<open>
  The \<^verbatim>\<open>while\<close> loop of \<^verbatim>\<open>find_block_in_list\<close> follows the \<^verbatim>\<open>next\<close> links until it
  finds a block that is large enough or reaches \<^verbatim>\<open>NULL\<close>; on a cyclic list of small
  blocks it does not return, which is the value \<open>None\<close>.
\<close>

partial_function (option) find_block_loop :: "heap \<Rightarrow> size_t \<Rightarrow> ptr \<Rightarrow> ptr option" where
  "find_block_loop s sz fit_blk =
     (if fit_blk \<noteq> NULL
      then (if sz \<le> ucast (GET_SIZE s (HDRP fit_blk)) then Some fit_blk
            else find_block_loop s sz (ptr_of_size (GET s (NEXT_FREE fit_blk))))
      else Some fit_blk)"

definition find_block_in_list :: "heap \<Rightarrow> size_t \<Rightarrow> size_t \<Rightarrow> ptr option" where
  "find_block_in_list s index sz =
     (let fit_list = find_list index;
          fit_blk = ptr_of_size (GET s (heap_ptr s + fit_list))
      in find_block_loop s sz fit_blk)"

function find_fit_loop :: "heap \<Rightarrow> size_t \<Rightarrow> size_t \<Rightarrow> ptr option" where
  "find_fit_loop s asize i =
     (if i < 12
      then (case find_block_in_list s i asize of
              None \<Rightarrow> None
            | Some bp \<Rightarrow> if bp \<noteq> NULL then Some bp else find_fit_loop s asize (i + 1))
      else Some NULL)"
  by pat_completeness auto
termination
  by (relation "measure (\<lambda>(s, asize, i). 12 - unat i)")
     (simp_all add: word_less_nat_alt unat_word_ariths)

definition find_fit :: "heap \<Rightarrow> size_t \<Rightarrow> ptr option" where
  "find_fit s asize = find_fit_loop s asize (get_index asize)"

section \<open>The public operations\<close>

text \<open>The size adjustment at the head of \<^verbatim>\<open>malloc\<close>: the local \<^verbatim>\<open>asize\<close>.\<close>

definition adjust_size :: "size_t \<Rightarrow> size_t" where
  "adjust_size sz =
     (if sz \<le> 2 * 8 then MIN_BLOCK_SIZE else (sz + 4 + 7) AND NOT 7)"

definition malloc :: "size_t \<Rightarrow> heap \<Rightarrow> (ptr \<times> heap) option" where
  "malloc sz s =
     (if sz \<le> 0 then Some (NULL, s)
      else
        (let asize = adjust_size sz
         in case find_fit s asize of
              None \<Rightarrow> None
            | Some bp \<Rightarrow>
                if bp \<noteq> NULL then Some (bp, place bp asize s)
                else
                  (let extendsize = max asize CHUNKSIZE;
                       (bp, s1) = extend_heap extendsize s
                   in if bp = NULL then Some (NULL, s1)
                      else Some (bp, place bp asize s1))))"

definition free :: "ptr \<Rightarrow> heap \<Rightarrow> heap" where
  "free bp s =
     (if bp = NULL then s
      else
        (let header_next = HDRP (NEXT_BLKP s bp);
             sz = (ucast (GET_SIZE s (HDRP bp)) :: size_t);
             s1 = PUT_4 header_next (GET_SIZE s header_next OR 0 OR GET_ALLOC s header_next) s;
             s2 = PUT_4 (HDRP bp) (ucast (sz OR ucast (GET_PREV_ALLOC s1 (HDRP bp)) OR 0)) s1;
             s3 = PUT_4 (FTRP s2 bp) (GET_4 s2 (HDRP bp)) s2;
             s4 = add_free_blk bp sz s3
         in snd (coalesce bp s4)))"

text \<open>
  \<^verbatim>\<open>memcpy(dst, src, n)\<close> of the C library: the \<open>n\<close> bytes at \<open>dst\<close> become the \<open>n\<close>
  bytes that were at \<open>src\<close>.
\<close>

definition copy_bytes :: "memory \<Rightarrow> ptr \<Rightarrow> ptr \<Rightarrow> int \<Rightarrow> memory" where
  "copy_bytes m dst src n = (\<lambda>a. if dst \<le> a \<and> a < dst + n then m (src + (a - dst)) else m a)"

definition memcpy :: "ptr \<Rightarrow> ptr \<Rightarrow> size_t \<Rightarrow> heap \<Rightarrow> heap" where
  "memcpy dst src n s = s\<lparr>mem := copy_bytes (mem s) dst src (uint n)\<rparr>"

definition realloc :: "ptr \<Rightarrow> size_t \<Rightarrow> heap \<Rightarrow> (ptr \<times> heap) option" where
  "realloc oldptr sz s =
     (if sz = 0 then Some (NULL, free oldptr s)
      else if oldptr = NULL then malloc sz s
      else
        (let oldsize = (ucast (GET_SIZE s (HDRP oldptr)) :: size_t) - OVERHEAD
         in if sz \<le> oldsize then Some (oldptr, s)
            else
              (case malloc sz s of
                 None \<Rightarrow> None
               | Some (newptr, s1) \<Rightarrow>
                   if newptr = NULL then Some (NULL, s1)
                   else Some (newptr, free oldptr (memcpy newptr oldptr sz s1)))))"

text \<open>
  \<^verbatim>\<open>calloc\<close> stores through \<^verbatim>\<open>temp\<close> without testing it. A store through the null pointer
  is a fault of the machine, and the run ends there: the value \<open>Inl Null_Store\<close>.
\<close>

datatype fault = Null_Store

function calloc_loop :: "ptr \<Rightarrow> size_t \<Rightarrow> size_t \<Rightarrow> size_t \<Rightarrow> heap \<Rightarrow> fault + heap" where
  "calloc_loop temp sz i nmemb s =
     (if i < nmemb
      then (if temp = NULL then Inl Null_Store
            else calloc_loop (temp + uint sz) sz (i + 1) nmemb (s\<lparr>mem := (mem s)(temp := 0)\<rparr>))
      else Inr s)"
  by pat_completeness auto
termination
proof (relation "measure (\<lambda>(temp, sz, i, nmemb, s). unat nmemb - unat i)")
  show "wf (measure (\<lambda>(temp, sz, i, nmemb, s). unat nmemb - unat i))"
    by simp
next
  fix temp :: ptr and sz i nmemb :: size_t and s :: heap
  assume less: "i < nmemb"
  then have lt: "unat i < unat nmemb"
    by (simp add: word_less_nat_alt)
  have "unat nmemb < 2 ^ 64"
    using unsigned_less [of nmemb, where 'a = nat] by simp
  with lt have "unat i + unat (1 :: size_t) < 2 ^ LENGTH(64)"
    by simp
  then have "unat (i + 1) = unat i + unat (1 :: size_t)"
    by (simp only: unat_add_lem [THEN iffD1])
  with lt show "((temp + uint sz, sz, i + 1, nmemb, s\<lparr>mem := (mem s)(temp := 0)\<rparr>),
        (temp, sz, i, nmemb, s)) \<in> measure (\<lambda>(temp, sz, i, nmemb, s). unat nmemb - unat i)"
    by simp
qed

definition calloc :: "size_t \<Rightarrow> size_t \<Rightarrow> heap \<Rightarrow> (fault + ptr \<times> heap) option" where
  "calloc nmemb sz s =
     (let total_size = nmemb * sz
      in case malloc total_size s of
           None \<Rightarrow> None
         | Some (ptr, s1) \<Rightarrow>
             (case calloc_loop ptr sz 0 nmemb s1 of
                Inl f \<Rightarrow> Some (Inl f)
              | Inr s2 \<Rightarrow> Some (Inr (ptr, s2))))"

definition mm_init :: "heap \<Rightarrow> int \<times> heap" where
  "mm_init s =
     (let (p, s0) = mem_sbrk (word_of_int (NO_OF_LISTS * DSIZE)) s;
          s1 = s0\<lparr>heap_ptr := p\<rparr>
      in if p = NULL then (- 1, s1)
         else
           (let s2 = PUT (heap_ptr s1 + LIST_11) (size_of_ptr NULL)
                    (PUT (heap_ptr s1 + LIST_10) (size_of_ptr NULL)
                    (PUT (heap_ptr s1 + LIST_9) (size_of_ptr NULL)
                    (PUT (heap_ptr s1 + LIST_8) (size_of_ptr NULL)
                    (PUT (heap_ptr s1 + LIST_7) (size_of_ptr NULL)
                    (PUT (heap_ptr s1 + LIST_6) (size_of_ptr NULL)
                    (PUT (heap_ptr s1 + LIST_5) (size_of_ptr NULL)
                    (PUT (heap_ptr s1 + LIST_4) (size_of_ptr NULL)
                    (PUT (heap_ptr s1 + LIST_3) (size_of_ptr NULL)
                    (PUT (heap_ptr s1 + LIST_2) (size_of_ptr NULL)
                    (PUT (heap_ptr s1 + LIST_1) (size_of_ptr NULL)
                    (PUT (heap_ptr s1 + LIST_0) (size_of_ptr NULL) s1)))))))))));
                (q, s3) = mem_sbrk (word_of_int (4 * WSIZE)) s2;
                s4 = s3\<lparr>heap_start := q\<rparr>
            in if q = NULL then (- 1, s4)
               else
                 (let s5 = PUT_4 (heap_start s4) 0 s4;
                      s6 = PUT_4 (heap_start s5 + WSIZE) (PACK 8 1) s5;
                      s7 = PUT_4 (heap_start s6 + 2 * WSIZE) (PACK 8 1) s6;
                      s8 = PUT_4 (heap_start s7 + 3 * WSIZE) (PACK 0 (PREV_ALLOC OR ALLOC)) s7;
                      s9 = s8\<lparr>heap_start := heap_start s8 + DSIZE\<rparr>;
                      (r, s10) = extend_heap CHUNKSIZE s9
                  in if r = NULL then (- 1, s10) else (0, s10))))"

section \<open>The cycle check of the heap checker\<close>

text \<open>
  The \<^verbatim>\<open>while\<close> loop of \<^verbatim>\<open>check_for_cycle\<close> on one list: \<open>Some True\<close> when it reports a
  cycle (\<^verbatim>\<open>return 1\<close>), \<open>Some False\<close> when it leaves the loop, \<open>None\<close> when it never
  leaves it.
\<close>

partial_function (option) cycle_loop :: "heap \<Rightarrow> ptr \<Rightarrow> ptr \<Rightarrow> bool option" where
  "cycle_loop s hare tortoise =
     (if hare \<noteq> NULL \<and> tortoise \<noteq> NULL
      then
        (let hare1 = (if hare \<noteq> NULL then ptr_of_size (GET s (NEXT_FREE hare)) else hare);
             tortoise1 = (if hare1 \<noteq> NULL then ptr_of_size (GET s (NEXT_FREE hare1))
                          else tortoise)
         in if hare1 = tortoise1 then Some True else cycle_loop s hare1 tortoise1)
      else Some False)"

function check_for_cycle_from :: "heap \<Rightarrow> size_t \<Rightarrow> int option" where
  "check_for_cycle_from s i =
     (if i < 12
      then
        (let list_num = find_list i;
             hare = heap_ptr s + list_num;
             tortoise = heap_ptr s + list_num
         in case cycle_loop s hare tortoise of
              None \<Rightarrow> None
            | Some found \<Rightarrow> if found then Some 1 else check_for_cycle_from s (i + 1))
      else Some 0)"
  by pat_completeness auto
termination
  by (relation "measure (\<lambda>(s, i). 12 - unat i)")
     (simp_all add: word_less_nat_alt unat_word_ariths)

definition check_for_cycle :: "heap \<Rightarrow> int option" where
  "check_for_cycle s = check_for_cycle_from s 0"

section \<open>Concrete heaps\<close>

text \<open>
  A concrete memory is written as the list of the stores (and \<^verbatim>\<open>memcpy\<close> calls) that
  produced it, in program order, over a memory of zeros. \<open>heap0\<close> is the state before \<^verbatim>\<open>mm_init\<close>: the heap primitive has
  the 4096 bytes from address 4096 on. \<open>heap0_full\<close> is the same with only the 280 bytes
  that \<^verbatim>\<open>mm_init\<close> takes, so that every later extension fails.
\<close>

datatype mstore = W1 ptr byte | W4 ptr unsigned | W8 ptr size_t | Copy ptr ptr int

fun do_write :: "memory \<Rightarrow> mstore \<Rightarrow> memory" where
  "do_write m (W1 p v) = m(p := v)"
| "do_write m (W4 p v) = store_4 m p v"
| "do_write m (W8 p v) = store_8 m p v"
| "do_write m (Copy dst src n) = copy_bytes m dst src n"

definition written :: "mstore list \<Rightarrow> memory" where
  "written ws = foldl do_write (\<lambda>_. 0) ws"

definition heap0 :: heap where
  "heap0 = \<lparr>mem = written [], mem_brk = 4096, mem_max_addr = 8192, heap_ptr = 0, heap_start = 0\<rparr>"

definition heap0_full :: heap where
  "heap0_full = heap0\<lparr>mem_max_addr := 4376\<rparr>"

text \<open>The client of the allocator stores a byte into a payload.\<close>

definition client_store :: "ptr \<Rightarrow> byte \<Rightarrow> heap \<Rightarrow> heap" where
  "client_store p v s = s\<lparr>mem := (mem s)(p := v)\<rparr>"

text \<open>
  The stores of \<^verbatim>\<open>mm_init\<close> on \<open>heap0\<close>: the twelve list heads, the padding, the prologue
  (header and footer 9 at 4196 and 4200), the epilogue, then the first chunk of 168 bytes:
  a free block with payload address 4208, header 170 at 4204 and footer at 4368, the new
  epilogue at 4372, and the block at the head of list 1.
\<close>

definition stores_init :: "mstore list" where
  "stores_init =
    [W8 4096 0, W8 4104 0, W8 4112 0, W8 4120 0, W8 4128 0, W8 4136 0, W8 4144 0, W8 4152 0,
     W8 4160 0, W8 4168 0, W8 4176 0, W8 4184 0, W4 4192 0, W4 4196 9, W4 4200 9, W4 4204 3,
     W4 4204 170, W4 4368 170, W4 4372 1, W8 4104 4208, W8 4216 0, W8 4208 0]"

definition heap_of :: "mstore list \<Rightarrow> ptr \<Rightarrow> heap" where
  "heap_of ws max_addr =
     \<lparr>mem = written ws, mem_brk = 4376, mem_max_addr = max_addr, heap_ptr = 4096,
      heap_start = 4200\<rparr>"

definition heap_init :: heap where
  "heap_init = heap_of stores_init 8192"

definition heap_full :: heap where
  "heap_full = heap_of stores_init 4376"

text \<open>\<^verbatim>\<open>malloc(16)\<close> twice after \<^verbatim>\<open>mm_init\<close>: blocks of 24 bytes at 4208 and at 4232.\<close>

definition stores_c1 :: "mstore list" where
  "stores_c1 = stores_init @
    [W8 4104 0, W4 4204 27, W4 4228 146, W4 4368 146, W8 4104 4232, W8 4240 0, W8 4232 0]"

definition heap_c1 :: heap where
  "heap_c1 = heap_of stores_c1 8192"

definition stores_c2 :: "mstore list" where
  "stores_c2 = stores_c1 @
    [W8 4104 0, W4 4228 27, W4 4252 122, W4 4368 122, W8 4096 4256, W8 4264 0, W8 4256 0]"

definition heap_c2 :: heap where
  "heap_c2 = heap_of stores_c2 8192"

text \<open>
  Then the client stores 205 into the first byte of the second block, and
  \<^verbatim>\<open>realloc(4208, 40)\<close> places a block of 48 bytes at 4256 (\<open>heap_c3\<close>), copies and
  releases the block at 4208 (\<open>heap_c4\<close>).
\<close>

definition stores_c3 :: "mstore list" where
  "stores_c3 = stores_c2 @
    [W1 4232 205, W8 4096 0, W4 4252 51, W4 4300 74, W4 4368 74, W8 4096 4304, W8 4312 0,
     W8 4304 0]"

definition heap_c3 :: heap where
  "heap_c3 = heap_of stores_c3 8192"

definition stores_c4 :: "mstore list" where
  "stores_c4 = stores_c3 @
    [Copy 4256 4208 40, W4 4228 25, W4 4204 26, W4 4224 26, W8 4096 4208, W8 4216 0,
     W8 4312 4208, W8 4208 4304]"

definition heap_c4 :: heap where
  "heap_c4 = heap_of stores_c4 8192"

text \<open>
  \<^verbatim>\<open>malloc(24)\<close> after \<^verbatim>\<open>mm_init\<close> (a block of 32 bytes at 4208); the client stores 255
  into byte 17 of the payload and releases the block (\<open>heap_b2\<close>); \<^verbatim>\<open>calloc(3, 8)\<close> takes
  the same block again (\<open>heap_b3\<close>).
\<close>

definition stores_b1 :: "mstore list" where
  "stores_b1 = stores_init @
    [W8 4104 0, W4 4204 35, W4 4236 138, W4 4368 138, W8 4104 4240, W8 4248 0, W8 4240 0]"

definition heap_b1 :: heap where
  "heap_b1 = heap_of stores_b1 8192"

definition stores_b2 :: "mstore list" where
  "stores_b2 = stores_b1 @
    [W1 4225 255, W4 4236 136, W4 4204 34, W4 4232 34, W8 4096 4208, W8 4216 0, W8 4208 0,
     W8 4096 0, W8 4104 0, W4 4204 170, W4 4368 170, W8 4104 4208, W8 4216 0, W8 4208 0]"

definition heap_b2 :: heap where
  "heap_b2 = heap_of stores_b2 8192"

definition stores_b3 :: "mstore list" where
  "stores_b3 = stores_b2 @
    [W8 4104 0, W4 4204 35, W4 4236 138, W4 4368 138, W8 4104 4240, W8 4248 0, W8 4240 0,
     W1 4208 0, W1 4216 0, W1 4224 0]"

definition heap_b3 :: heap where
  "heap_b3 = heap_of stores_b3 8192"

text \<open>
  \<^verbatim>\<open>malloc(SIZE_MAX - 2)\<close> after \<^verbatim>\<open>mm_init\<close> (\<open>heap_tiny\<close>: a block of 8 bytes at 4208),
  then \<^verbatim>\<open>free(4208)\<close> (\<open>heap_tiny_freed\<close>).
\<close>

definition stores_tiny :: "mstore list" where
  "stores_tiny = stores_init @
    [W8 4104 0, W4 4204 11, W4 4212 162, W4 4368 162, W8 4104 4216, W8 4224 0, W8 4216 0]"

definition heap_tiny :: heap where
  "heap_tiny = heap_of stores_tiny 8192"

definition stores_tiny_freed :: "mstore list" where
  "stores_tiny_freed = stores_tiny @
    [W4 4212 160, W4 4204 10, W4 4208 10, W8 4096 4208, W8 4216 0, W8 4208 0, W8 4096 0,
     W8 4096 0, W4 4204 10, W4 4208 10, W8 4096 4208, W8 4216 0, W8 4208 0]"

definition heap_tiny_freed :: heap where
  "heap_tiny_freed = heap_of stores_tiny_freed 8192"

text \<open>
  A heap whose list 0 is cyclic: the head is the block at 4208, its \<^verbatim>\<open>next\<close> link is the
  block at 4240, and the \<^verbatim>\<open>next\<close> link of that one is 4208 again (a client that stores
  through a pointer it has released leaves such links behind).
\<close>

definition heap_cycle :: heap where
  "heap_cycle = heap_of (stores_init @ [W8 4096 4208, W8 4208 4240, W8 4240 4208]) 8192"

text \<open>
  The test of \<^verbatim>\<open>check_free_blk\<close> for two adjacent free blocks: the block after the free
  block \<open>blk\<close> is not the epilogue and its allocated bit is clear.
\<close>

definition adjacent_free :: "heap \<Rightarrow> ptr \<Rightarrow> bool" where
  "adjacent_free s blk \<longleftrightarrow>
     GET_4 s (HDRP (NEXT_BLKP s blk)) \<noteq> 1 \<and> GET_4 s (HDRP (NEXT_BLKP s blk)) \<noteq> 3 \<and>
     GET_ALLOC s (HDRP (NEXT_BLKP s blk)) = 0"

section \<open>Reading memory after a store\<close>

lemma bytes_4:
  "(ucast (ucast v :: byte) :: unsigned) OR push_bit 8 (ucast (ucast (drop_bit 8 v) :: byte))
     OR push_bit 16 (ucast (ucast (drop_bit 16 v) :: byte))
     OR push_bit 24 (ucast (ucast (drop_bit 24 v) :: byte)) = v"
proof (rule bit_word_eqI)
  fix n assume "n < LENGTH(32)"
  then consider "n < 8" | "8 \<le> n" "n < 16" | "16 \<le> n" "n < 24" | "24 \<le> n" "n < 32"
    by fastforce
  then show "bit (ucast (ucast v :: byte) OR push_bit 8 (ucast (ucast (drop_bit 8 v) :: byte))
      OR push_bit 16 (ucast (ucast (drop_bit 16 v) :: byte))
      OR push_bit 24 (ucast (ucast (drop_bit 24 v) :: byte)) :: unsigned) n = bit v n"
    by cases (auto simp: bit_simps)
qed

lemma halves_8:
  "(ucast (ucast v :: unsigned) :: size_t) OR push_bit 32 (ucast (ucast (drop_bit 32 v) :: unsigned))
     = v"
proof (rule bit_word_eqI)
  fix n assume "n < LENGTH(64)"
  then consider "n < 32" | "32 \<le> n" "n < 64"
    by fastforce
  then show "bit (ucast (ucast v :: unsigned)
      OR push_bit 32 (ucast (ucast (drop_bit 32 v) :: unsigned)) :: size_t) n = bit v n"
    by cases (auto simp: bit_simps)
qed

lemma load_4_store_4_same: "load_4 (store_4 m p v) p = v"
  by (simp add: load_4_def store_4_def bytes_4)

lemma load_4_store_4_other:
  "q + 4 \<le> p \<or> p + 4 \<le> q \<Longrightarrow> load_4 (store_4 m p v) q = load_4 m q"
  by (auto simp: load_4_def store_4_def)

lemma load_4_upd_other: "a < q \<or> q + 4 \<le> a \<Longrightarrow> load_4 (m(a := b)) q = load_4 m q"
  by (auto simp: load_4_def)

lemma store_4_apply_other: "a < p \<or> p + 4 \<le> a \<Longrightarrow> store_4 m p v a = m a"
  by (auto simp: store_4_def)

lemma store_4_apply_in:
  "p \<le> a \<and> a < p + 4 \<Longrightarrow> store_4 m p v a = ucast (drop_bit (8 * nat (a - p)) v)"
proof -
  assume "p \<le> a \<and> a < p + 4"
  then consider "a = p" | "a = p + 1" | "a = p + 2" | "a = p + 3"
    by fastforce
  then show ?thesis
    by cases (simp_all add: store_4_def)
qed

lemma load_8_store_8_same: "load_8 (store_8 m p v) p = v"
  by (simp add: load_8_def store_8_def load_4_store_4_same load_4_store_4_other halves_8)

lemma load_8_store_8_other:
  "q + 8 \<le> p \<or> p + 8 \<le> q \<Longrightarrow> load_8 (store_8 m p v) q = load_8 m q"
  by (auto simp: load_8_def store_8_def load_4_store_4_other)

lemma load_4_store_8_other:
  "q + 4 \<le> p \<or> p + 8 \<le> q \<Longrightarrow> load_4 (store_8 m p v) q = load_4 m q"
  by (auto simp: store_8_def load_4_store_4_other)

lemma load_4_store_8_lo: "load_4 (store_8 m p v) p = ucast v"
  by (simp add: store_8_def load_4_store_4_same load_4_store_4_other)

lemma load_4_store_8_hi: "q = p + 4 \<Longrightarrow> load_4 (store_8 m p v) q = ucast (drop_bit 32 v)"
  by (simp add: store_8_def load_4_store_4_same)

lemma load_8_store_4_other:
  "q + 8 \<le> p \<or> p + 4 \<le> q \<Longrightarrow> load_8 (store_4 m p v) q = load_8 m q"
  by (auto simp: load_8_def load_4_store_4_other)

lemma load_8_store_4_overlap:
  "p = q \<or> p = q + 4 \<Longrightarrow>
   load_8 (store_4 m p v) q =
     ucast (load_4 (store_4 m p v) q) OR push_bit 32 (ucast (load_4 (store_4 m p v) (q + 4)))"
  by (simp add: load_8_def)

lemma load_8_upd_other: "a < q \<or> q + 8 \<le> a \<Longrightarrow> load_8 (m(a := b)) q = load_8 m q"
  by (auto simp: load_8_def load_4_upd_other)

lemma store_8_apply_other: "a < p \<or> p + 8 \<le> a \<Longrightarrow> store_8 m p v a = m a"
  by (auto simp: store_8_def store_4_apply_other)

lemma load_4_copy_bytes_other:
  "q + 4 \<le> dst \<or> dst + n \<le> q \<Longrightarrow> load_4 (copy_bytes m dst src n) q = load_4 m q"
  by (auto simp: load_4_def copy_bytes_def)

lemma load_8_copy_bytes_other:
  "q + 8 \<le> dst \<or> dst + n \<le> q \<Longrightarrow> load_8 (copy_bytes m dst src n) q = load_8 m q"
  by (auto simp: load_8_def load_4_copy_bytes_other)

lemma copy_bytes_apply_in:
  "dst \<le> a \<and> a < dst + n \<Longrightarrow> copy_bytes m dst src n a = m (src + (a - dst))"
  by (simp add: copy_bytes_def)

lemma copy_bytes_apply_other:
  "a < dst \<or> dst + n \<le> a \<Longrightarrow> copy_bytes m dst src n a = m a"
  by (auto simp: copy_bytes_def)

lemma load_4_zero: "load_4 (\<lambda>_. 0) p = 0"
  by (simp add: load_4_def)

lemma load_8_zero: "load_8 (\<lambda>_. 0) p = 0"
  by (simp add: load_8_def load_4_def)

lemma long_of_ptr_small: "0 \<le> p \<Longrightarrow> p < 2 ^ 63 \<Longrightarrow> long_of_ptr p = p"
  unfolding long_of_ptr_def by (simp add: sint_sbintrunc' signed_take_bit_int_eq_self)

lemma long_of_ptr_failed: "long_of_ptr SBRK_FAILED = - 1"
  unfolding long_of_ptr_def SBRK_FAILED_def by simp

text \<open>The rules that run the model on a concrete heap.\<close>

lemmas mem_rules =
  load_4_store_4_same load_4_store_4_other load_4_upd_other store_4_apply_other store_4_apply_in
  load_8_store_8_same load_8_store_8_other load_4_store_8_other load_8_store_4_other
  load_8_store_4_overlap load_8_upd_other store_8_apply_other load_4_zero load_8_zero
  load_4_store_8_lo load_4_store_8_hi load_4_copy_bytes_other load_8_copy_bytes_other
  copy_bytes_apply_in copy_bytes_apply_other fun_upd_same fun_upd_other

lemmas op_defs =
  PUT_def PUT_4_def GET_def GET_4_def GET_SIZE_def GET_ALLOC_def GET_PREV_ALLOC_def
  HDRP_def FTRP_def NEXT_BLKP_def PREV_BLKP_def NEXT_FREE_def PREV_FREE_def PACK_def
  size_of_ptr_def ptr_of_size_def find_list_by_size_def find_list_def get_index_def

lemmas run_defs =
  const_defs op_defs mem_rules Let_def
  mm_init_def mem_sbrk_def extend_heap_def coalesce_def add_free_blk_def rem_free_blk_def
  place_def malloc_def free_def adjust_size_def find_fit_def find_block_in_list_def
  find_block_loop.simps realloc_def calloc_def memcpy_def client_store_def
  long_of_ptr_small long_of_ptr_failed written_def

section \<open>Runs of the allocator on the concrete heap\<close>

lemmas heap_defs =
  heap0_def heap0_full_def heap_of_def heap_init_def heap_full_def stores_init_def
  heap_c1_def stores_c1_def heap_c2_def stores_c2_def heap_c3_def stores_c3_def
  heap_c4_def stores_c4_def heap_b1_def stores_b1_def heap_b2_def stores_b2_def
  heap_b3_def stores_b3_def heap_tiny_def stores_tiny_def heap_tiny_freed_def
  stores_tiny_freed_def

lemma mm_init_heap0: "mm_init heap0 = (0, heap_init)"
  by (simp add: heap_defs run_defs del: fun_upd_apply cong: let_weak_cong)

lemma mm_init_heap0_full: "mm_init heap0_full = (0, heap_full)"
  by (simp add: heap_defs run_defs del: fun_upd_apply cong: let_weak_cong)

lemma malloc_16_init: "malloc 16 heap_init = Some (4208, heap_c1)"
  by (simp add: heap_defs run_defs del: fun_upd_apply cong: let_weak_cong)

lemma place_24_init: "place 4208 24 heap_init = heap_c1"
  by (simp add: heap_defs run_defs del: fun_upd_apply cong: let_weak_cong)

lemma malloc_16_c1: "malloc 16 heap_c1 = Some (4232, heap_c2)"
  by (simp add: heap_defs run_defs del: fun_upd_apply cong: let_weak_cong)

lemma malloc_40_c2: "malloc 40 (client_store 4232 205 heap_c2) = Some (4256, heap_c3)"
  by (simp add: heap_defs run_defs del: fun_upd_apply cong: let_weak_cong)

lemma old_size_c2: "GET_SIZE (client_store 4232 205 heap_c2) (HDRP 4208) = 24"
  by (simp add: heap_defs run_defs del: fun_upd_apply cong: let_weak_cong)

lemma free_copy_c3: "free 4208 (memcpy 4256 4208 40 heap_c3) = heap_c4"
  by (simp add: heap_defs run_defs del: fun_upd_apply cong: let_weak_cong)

lemma realloc_40_c2: "realloc 4208 40 (client_store 4232 205 heap_c2) = Some (4256, heap_c4)"
  by (simp add: realloc_def old_size_c2 malloc_40_c2 free_copy_c3 NULL_def OVERHEAD_def)

lemma bytes_c4: "mem heap_c4 (4256 + 20) = 27 \<and> mem heap_c4 (4256 + 24) = 205"
  by (simp add: heap_defs run_defs del: fun_upd_apply cong: let_weak_cong)

lemma bytes_c2:
  "mem (client_store 4232 205 heap_c2) (4208 + 20) = 27 \<and>
   mem (client_store 4232 205 heap_c2) (4208 + 24) = 205 \<and>
   mem (client_store 4232 205 heap_c2) (4256 + 24) = 0"
  by (simp add: heap_defs run_defs del: fun_upd_apply cong: let_weak_cong)

lemma malloc_24_init: "malloc 24 heap_init = Some (4208, heap_b1)"
  by (simp add: heap_defs run_defs del: fun_upd_apply cong: let_weak_cong)

lemma free_b1: "free 4208 (client_store (4208 + 17) 255 heap_b1) = heap_b2"
  by (simp add: heap_defs run_defs del: fun_upd_apply cong: let_weak_cong)

lemma calloc_b2: "calloc 3 8 heap_b2 = Some (Inr (4208, heap_b3))"
  by (simp add: heap_defs run_defs del: fun_upd_apply cong: let_weak_cong)

lemma byte_b3: "mem heap_b3 (4208 + 17) = 255"
  by (simp add: heap_defs run_defs del: fun_upd_apply cong: let_weak_cong)

lemma malloc_huge_init: "malloc 18446744073709551613 heap_init = Some (4208, heap_tiny)"
  by (simp add: heap_defs run_defs del: fun_upd_apply cong: let_weak_cong)

lemma header_tiny: "GET_4 heap_tiny (HDRP 4208) = 11"
  by (simp add: heap_defs run_defs del: fun_upd_apply cong: let_weak_cong)

lemma free_tiny: "free 4208 heap_tiny = heap_tiny_freed"
  by (simp add: heap_defs run_defs del: fun_upd_apply cong: let_weak_cong)

lemma headers_tiny_freed:
  "NEXT_BLKP heap_tiny_freed 4208 = 4216 \<and> GET_4 heap_tiny_freed (HDRP 4208) = 10 \<and>
   GET_4 heap_tiny_freed (HDRP 4216) = 0"
  by (simp add: heap_defs run_defs del: fun_upd_apply cong: let_weak_cong)

lemma malloc_200_full: "malloc 200 heap_full = Some (NULL, heap_full)"
  by (simp add: heap_defs run_defs del: fun_upd_apply cong: let_weak_cong)

section \<open>Size classes: bucket 7 ends at 16834\<close>

text \<open>
  C3. The size-class mapping is claimed to put every block into the lowest bucket whose
  upper bound of the table (128, 256, ..., 16384, 32768, ...) is at least its size, so that
  every size above 16384 and up to 32768 is in bucket 8. The constant \<^verbatim>\<open>LIST7_SIZE\<close> is
  16834, not 16384: the block size 16392 is above 16384 and \<^verbatim>\<open>get_index\<close> answers 7.
\<close>

theorem get_index_16392:
  "(16384 :: size_t) < 16392 \<and> (16392 :: size_t) \<le> 32768 \<and> get_index 16392 = 7"
  by (simp add: get_index_def const_defs)

section \<open>The size adjustment of malloc\<close>

lemma malloc_zero: "malloc 0 s = Some (NULL, s)"
  by (simp add: malloc_def)

lemma adjust_size_small: "sz \<le> 16 \<Longrightarrow> adjust_size sz = 24"
  by (simp add: adjust_size_def MIN_BLOCK_SIZE_def)

text \<open>
  As long as \<open>n + 11\<close> does not exceed \<^verbatim>\<open>SIZE_MAX\<close>, the adjusted size of a request above
  16 bytes is \<open>n + 4\<close> rounded up to a multiple of 8.
\<close>

lemma and_not_7: "(x :: size_t) AND NOT 7 = push_bit 3 (drop_bit 3 x)"
proof (rule bit_word_eqI)
  fix n assume n: "n < LENGTH(64)"
  have "bit (mask 3 :: size_t) n \<longleftrightarrow> n < 3"
    using n by (auto simp: bit_mask_iff)
  moreover have "(mask 3 :: size_t) = 7"
    by (simp add: mask_eq_exp_minus_1)
  ultimately have seven: "bit (7 :: size_t) n \<longleftrightarrow> n < 3"
    by simp
  have "bit (x AND NOT 7) n \<longleftrightarrow> bit x n \<and> \<not> bit (7 :: size_t) n"
    unfolding bit_and_iff bit_not_iff using n by simp
  also have "\<dots> \<longleftrightarrow> bit x n \<and> 3 \<le> n"
    unfolding seven by auto
  also have "\<dots> \<longleftrightarrow> bit (push_bit 3 (drop_bit 3 x)) n"
    using n by (auto simp: bit_push_bit_iff bit_drop_bit_eq)
  finally show "bit (x AND NOT 7) n = bit (push_bit 3 (drop_bit 3 x)) n" .
qed

lemma unat_and_not_7: "unat ((x :: size_t) AND NOT 7) = unat x div 8 * 8"
proof -
  have "unat x div 8 * 8 \<le> unat x"
    by simp
  moreover have "unat x < 2 ^ 64"
    using unsigned_less [of x, where 'a = nat] by simp
  ultimately have "unat x div 8 * 8 < 2 ^ 64"
    by linarith
  then have "take_bit LENGTH(64) (push_bit 3 (drop_bit 3 (unat x))) = unat x div 8 * 8"
    by (simp add: push_bit_eq_mult drop_bit_eq_div take_bit_nat_eq_self mult.commute)
  then show ?thesis
    by (simp only: and_not_7 unsigned_push_bit_eq unat_drop_bit_eq)
qed

lemma not_7_eq: "NOT (7 :: size_t) = - 8"
  by simp

lemmas unat_and_minus_8 = unat_and_not_7 [unfolded not_7_eq]

lemma adjust_size_in_range:
  assumes "16 < sz" and "unat sz + 11 < 2 ^ 64"
  shows "unat (adjust_size sz) = (unat sz + 4 + 7) div 8 * 8"
proof -
  have "unat (sz + 4 + 7) = unat sz + 11"
    using assms(2) by (simp add: unat_word_ariths)
  then have "unat ((sz + 4 + 7) AND NOT 7) = (unat sz + 4 + 7) div 8 * 8"
    by (simp add: unat_and_minus_8)
  moreover have "\<not> sz \<le> 16"
    using assms(1) by simp
  ultimately show ?thesis
    by (simp add: adjust_size_def)
qed

text \<open>
  C6. \<^verbatim>\<open>malloc\<close> is claimed to adjust every request above 16 bytes to \<open>n + 4\<close> rounded up to
  a multiple of 8. The sum \<^verbatim>\<open>size + WSIZE + 7\<close> wraps around: for the request
  \<^verbatim>\<open>SIZE_MAX - 2\<close> the adjusted size is 8, and \<^verbatim>\<open>malloc\<close> on the fresh heap answers the
  non-null pointer 4208 to a block whose header 11 records 8 bytes.
\<close>

theorem adjust_size_wraps:
  "adjust_size 18446744073709551613 = 8 \<and>
   malloc 18446744073709551613 heap_init = Some (4208, heap_tiny) \<and>
   GET_4 heap_tiny (HDRP 4208) = 11"
  by (simp add: malloc_huge_init header_tiny) (simp add: adjust_size_def)

section \<open>calloc\<close>

text \<open>
  C1. \<^verbatim>\<open>calloc(m, s)\<close> is claimed to return a region whose \<open>m * s\<close> bytes are 0. Its loop
  stores one zero byte per element, at \<^verbatim>\<open>ptr\<close>, \<^verbatim>\<open>ptr + s\<close>, ...: after \<^verbatim>\<open>mm_init\<close>,
  \<^verbatim>\<open>p = malloc(24)\<close>, \<^verbatim>\<open>p[17] = 255\<close> and \<^verbatim>\<open>free(p)\<close>, the call \<^verbatim>\<open>calloc(3, 8)\<close> returns the
  same block and byte 17 of its 24 bytes is still 255.
\<close>

theorem calloc_leaves_byte:
  "malloc 24 heap_init = Some (4208, heap_b1) \<and>
   free 4208 (client_store (4208 + 17) 255 heap_b1) = heap_b2 \<and>
   calloc 3 8 heap_b2 = Some (Inr (4208, heap_b3)) \<and>
   mem heap_b3 (4208 + 17) = 255"
  by (intro conjI malloc_24_init free_b1 calloc_b2 byte_b3)

text \<open>
  C4. When the heap cannot be extended, \<^verbatim>\<open>calloc\<close> is claimed to return null without a
  store through an invalid pointer. On the heap that \<^verbatim>\<open>mm_init\<close> has filled up,
  \<^verbatim>\<open>malloc(200)\<close> returns null and leaves the heap as it is, and \<^verbatim>\<open>calloc(1, 200)\<close> stores
  through that null pointer.
\<close>

theorem calloc_out_of_memory:
  "mm_init heap0_full = (0, heap_full) \<and>
   malloc 200 heap_full = Some (NULL, heap_full) \<and>
   calloc 1 200 heap_full = Some (Inl Null_Store)"
  by (simp add: mm_init_heap0_full malloc_200_full calloc_def)

text \<open>
  C9. Whenever the \<^verbatim>\<open>malloc\<close> call inside \<^verbatim>\<open>calloc(nmemb, size)\<close> returns null and \<^verbatim>\<open>nmemb\<close>
  is not 0, the loop stores through the null pointer; this is so for every call with
  \<^verbatim>\<open>size\<close> 0, where \<^verbatim>\<open>malloc(0)\<close> returns null.
\<close>

theorem calloc_stores_through_null:
  assumes "nmemb \<noteq> 0"
  shows "(malloc (nmemb * sz) s = Some (NULL, s1) \<longrightarrow>
           calloc nmemb sz s = Some (Inl Null_Store)) \<and>
         malloc (nmemb * 0) s = Some (NULL, s) \<and>
         calloc nmemb 0 s = Some (Inl Null_Store)"
proof -
  have pos: "0 < nmemb"
    using assms by (simp add: word_greater_zero_iff)
  have loop: "calloc_loop NULL sz' 0 nmemb s' = Inl Null_Store" for sz' s'
    using pos by simp
  show ?thesis
    using pos by (simp add: calloc_def malloc_zero loop)
qed

theorem calloc_stores_through_null_witness:
  "(2 :: size_t) \<noteq> 0 \<and> malloc (2 * 100) heap_full = Some (NULL, heap_full) \<and>
   calloc 2 100 heap_full = Some (Inl Null_Store) \<and>
   malloc (2 * 0) heap_full = Some (NULL, heap_full) \<and>
   calloc 2 0 heap_full = Some (Inl Null_Store)"
  using calloc_stores_through_null [of 2 100 heap_full heap_full] malloc_200_full
  by simp

section \<open>realloc\<close>

text \<open>
  C2. \<^verbatim>\<open>realloc(p, n)\<close> with \<open>n\<close> above the old payload is claimed to copy \<open>min(old, n)\<close>
  bytes and never to read past the old payload. The call is \<^verbatim>\<open>memcpy(newptr, oldptr, size)\<close>.
  After \<^verbatim>\<open>mm_init\<close>, \<^verbatim>\<open>p = malloc(16)\<close>, \<^verbatim>\<open>q = malloc(16)\<close> and \<^verbatim>\<open>q[0] = 205\<close>, the block of \<open>p\<close>
  has 24 bytes (header at 4204, payload from 4208, the header of \<open>q\<close> at 4228);
  \<^verbatim>\<open>realloc(p, 40)\<close> returns 4256, and bytes 20 and 24 of the new block, which were 0, are
  the first byte of the header of \<open>q\<close> and the byte that the client stored into \<open>q\<close>.
\<close>

theorem realloc_copies_past_payload:
  "malloc 16 heap_init = Some (4208, heap_c1) \<and>
   malloc 16 heap_c1 = Some (4232, heap_c2) \<and>
   GET_SIZE (client_store 4232 205 heap_c2) (HDRP 4208) = 24 \<and>
   mem (client_store 4232 205 heap_c2) (4208 + 20) = 27 \<and>
   mem (client_store 4232 205 heap_c2) (4208 + 24) = 205 \<and>
   mem (client_store 4232 205 heap_c2) (4256 + 24) = 0 \<and>
   realloc 4208 40 (client_store 4232 205 heap_c2) = Some (4256, heap_c4) \<and>
   mem heap_c4 (4256 + 20) = 27 \<and> mem heap_c4 (4256 + 24) = 205"
  using malloc_16_init malloc_16_c1 old_size_c2 bytes_c2 realloc_40_c2 bytes_c4
  by (intro conjI) simp_all

section \<open>Adjacent free blocks\<close>

text \<open>
  C7. After every call of the interface no two adjacent blocks are claimed to be both
  free. The wrapped size of C6 breaks this: after \<^verbatim>\<open>mm_init\<close>, \<^verbatim>\<open>p = malloc(SIZE_MAX - 2)\<close>
  and \<^verbatim>\<open>free(p)\<close>, the links of the 8-byte block \<open>p\<close> have overwritten the header of the
  next block with 0: the block at 4208 is free, the block after it is at 4216, its header
  is 0 and the test of \<^verbatim>\<open>check_free_blk\<close> for adjacent free blocks holds.
\<close>

theorem free_leaves_adjacent_free_blocks:
  "mm_init heap0 = (0, heap_init) \<and>
   malloc 18446744073709551613 heap_init = Some (4208, heap_tiny) \<and>
   free 4208 heap_tiny = heap_tiny_freed \<and>
   NEXT_BLKP heap_tiny_freed 4208 = 4216 \<and>
   GET_ALLOC heap_tiny_freed (HDRP 4208) = 0 \<and>
   GET_ALLOC heap_tiny_freed (HDRP 4216) = 0 \<and>
   adjacent_free heap_tiny_freed 4208"
  using mm_init_heap0 malloc_huge_init free_tiny headers_tiny_freed
  by (simp add: adjacent_free_def GET_ALLOC_def)

section \<open>The cycle check\<close>

lemma links_heap_cycle:
  "heap_ptr heap_cycle + find_list 0 = 4096"
  "ptr_of_size (GET heap_cycle 4096) = 4208"
  "ptr_of_size (GET heap_cycle 4208) = 4240"
  "ptr_of_size (GET heap_cycle 4240) = 4208"
  by (simp_all add: heap_cycle_def heap_defs run_defs del: fun_upd_apply)

lemma cycle_loop_no_result:
  assumes "cycle_loop s hare tortoise = Some found"
  shows "\<not> (s = heap_cycle \<and> (hare = 4208 \<and> tortoise = 4240 \<or> hare = 4240 \<and> tortoise = 4208))"
proof (rule cycle_loop.raw_induct [where P = "\<lambda>s hare tortoise found.
    \<not> (s = heap_cycle \<and> (hare = 4208 \<and> tortoise = 4240 \<or> hare = 4240 \<and> tortoise = 4208))",
    OF _ assms])
  fix loop :: "heap \<Rightarrow> ptr \<Rightarrow> ptr \<Rightarrow> bool option"
  fix s hare tortoise found
  assume IH: "\<And>s hare tortoise found. loop s hare tortoise = Some found \<Longrightarrow>
    \<not> (s = heap_cycle \<and> (hare = 4208 \<and> tortoise = 4240 \<or> hare = 4240 \<and> tortoise = 4208))"
  assume step: "(if hare \<noteq> NULL \<and> tortoise \<noteq> NULL
      then let hare1 = if hare \<noteq> NULL then ptr_of_size (GET s (NEXT_FREE hare)) else hare;
               tortoise1 = if hare1 \<noteq> NULL then ptr_of_size (GET s (NEXT_FREE hare1))
                           else tortoise
           in if hare1 = tortoise1 then Some True else loop s hare1 tortoise1
      else Some False) = Some found"
  show "\<not> (s = heap_cycle \<and> (hare = 4208 \<and> tortoise = 4240 \<or> hare = 4240 \<and> tortoise = 4208))"
  proof
    assume a: "s = heap_cycle \<and> (hare = 4208 \<and> tortoise = 4240 \<or> hare = 4240 \<and> tortoise = 4208)"
    then consider "hare = 4208" "tortoise = 4240" | "hare = 4240" "tortoise = 4208"
      by blast
    then show False
    proof cases
      case 1
      with a step have "loop heap_cycle 4240 4208 = Some found"
        by (simp add: links_heap_cycle NEXT_FREE_def NULL_def)
      then show False
        using IH by blast
    next
      case 2
      with a step have "loop heap_cycle 4208 4240 = Some found"
        by (simp add: links_heap_cycle NEXT_FREE_def NULL_def)
      then show False
        using IH by blast
    qed
  qed
qed

lemma cycle_loop_heap_cycle: "cycle_loop heap_cycle 4096 4096 = None"
proof -
  have "cycle_loop heap_cycle 4208 4240 = None"
    using cycle_loop_no_result [of heap_cycle 4208 4240] by (cases "cycle_loop heap_cycle 4208 4240") auto
  then show ?thesis
    by (subst cycle_loop.simps) (simp add: links_heap_cycle NEXT_FREE_def NULL_def)
qed

text \<open>
  C8. The scan of \<^verbatim>\<open>check_for_cycle\<close> is claimed to end on every list and to report a
  cycle exactly when there is one. Its \<^verbatim>\<open>tortoise\<close> is always the \<^verbatim>\<open>next\<close> link of its
  \<^verbatim>\<open>hare\<close>, so the two meet only on a block linked to itself: on the list 4208, 4240,
  4208, ... of \<open>heap_cycle\<close> the loop never ends and \<^verbatim>\<open>check_for_cycle\<close> does not return.
\<close>

theorem check_for_cycle_diverges:
  "ptr_of_size (GET heap_cycle (heap_ptr heap_cycle + find_list 0)) = 4208 \<and>
   ptr_of_size (GET heap_cycle (NEXT_FREE 4208)) = 4240 \<and>
   ptr_of_size (GET heap_cycle (NEXT_FREE 4240)) = 4208 \<and>
   check_for_cycle heap_cycle = None"
proof -
  have "check_for_cycle heap_cycle = None"
    unfolding check_for_cycle_def
    by (subst check_for_cycle_from.simps) (simp add: links_heap_cycle cycle_loop_heap_cycle)
  then show ?thesis
    by (simp add: links_heap_cycle NEXT_FREE_def)
qed

end
